theory Spec2Isabelle
  imports Complex_Main
begin

section \<open>The spring-mass-damper notebook\<close>

text \<open>
  The repository is one notebook, \<^verbatim>\<open>projects/Spring_Mass_Damper/notebooks/Untitled.ipynb\<close>.
  Its code cells define the function \<^verbatim>\<open>ode_system\<close> and then describe a problem to
  an external framework (named \<^verbatim>\<open>dde\<close> in the cells): a time domain, two initial
  conditions, a data object, a network and a training call.

  Tensors are modelled one row of the batch at a time: the notebook's arithmetic is
  elementwise over the rows.
\<close>

subsection \<open>Python values, exceptions and the global namespace\<close>

datatype error =
    SyntaxError
  | NameError string
  | TypeError

text \<open>
  A global name of the notebook is bound to a number, to a function of one tensor
  argument, or to some other object (a function of two arguments such as
  \<^verbatim>\<open>ode_system\<close> itself, an object of the framework), on which neither arithmetic nor
  a call with one argument is defined. Numbers are finite numbers of the tensors'
  floating-point format.
\<close>

datatype val =
    Num real
  | Fn "real \<Rightarrow> real"
  | Obj

type_synonym globals = "string \<rightharpoonup> val"

definition and_then :: "error + 'a \<Rightarrow> ('a \<Rightarrow> error + 'b) \<Rightarrow> error + 'b" where
  "and_then r f = (case r of Inl e \<Rightarrow> Inl e | Inr a \<Rightarrow> f a)"

text \<open>Reading a global name that is not bound raises \<^verbatim>\<open>NameError\<close>.\<close>

definition load_name :: "globals \<Rightarrow> string \<Rightarrow> error + val" where
  "load_name g n = (case g n of None \<Rightarrow> Inl (NameError n) | Some a \<Rightarrow> Inr a)"

text \<open>Arithmetic on an object that is not a number raises \<^verbatim>\<open>TypeError\<close>.\<close>

fun as_number :: "val \<Rightarrow> error + real" where
  "as_number (Num r) = Inr r"
| "as_number (Fn f) = Inl TypeError"
| "as_number Obj = Inl TypeError"

text \<open>Calling an object that is not a function raises \<^verbatim>\<open>TypeError\<close>.\<close>

fun call_fn :: "val \<Rightarrow> real \<Rightarrow> error + real" where
  "call_fn (Fn f) a = Inr (f a)"
| "call_fn (Num r) a = Inl TypeError"
| "call_fn Obj a = Inl TypeError"

subsection \<open>Tensor arithmetic\<close>

text \<open>
  The entries of a tensor are floating-point numbers. An entry of a result is a finite
  number of the format or one of \<^verbatim>\<open>inf\<close>, \<^verbatim>\<open>-inf\<close>, \<^verbatim>\<open>nan\<close>; the three are one value
  \<open>NonFinite\<close> here.
\<close>

datatype entry = Fin real | NonFinite

text \<open>
  Every arithmetic operation on finite entries returns the exact result rounded to the
  format, and a non-finite entry when the exact result is beyond the format's range.
  The rounding of the format is a parameter of the model: nothing is assumed about
  it, so what is proved for every \<open>rnd\<close> holds whatever the precision of the tensors.
  No operation raises.
\<close>

type_synonym rounding = "real \<Rightarrow> entry"

text \<open>
  Multiplication, subtraction and addition. With a non-finite operand the result is
  non-finite (\<^verbatim>\<open>inf * 0\<close> and \<^verbatim>\<open>inf - inf\<close> are \<^verbatim>\<open>nan\<close>).
\<close>

fun tensor_op :: "rounding \<Rightarrow> (real \<Rightarrow> real \<Rightarrow> real) \<Rightarrow> entry \<Rightarrow> entry \<Rightarrow> entry" where
  "tensor_op rnd f (Fin a) (Fin b) = rnd (f a b)"
| "tensor_op rnd f (Fin a) NonFinite = NonFinite"
| "tensor_op rnd f NonFinite b = NonFinite"

text \<open>
  Division by a finite number. Dividing by zero raises nothing: the entry becomes
  \<^verbatim>\<open>inf\<close>, \<^verbatim>\<open>-inf\<close> or \<^verbatim>\<open>nan\<close>. HOL's \<open>a / 0 = 0\<close> is not used.
\<close>

fun tensor_div :: "rounding \<Rightarrow> entry \<Rightarrow> real \<Rightarrow> entry" where
  "tensor_div rnd (Fin a) b = (if b = 0 then NonFinite else rnd (a / b))"
| "tensor_div rnd NonFinite b = NonFinite"

subsection \<open>The network output and \<^verbatim>\<open>ode_system\<close>\<close>

text \<open>
  One row of the network output \<^verbatim>\<open>y\<close>, at one sampled time \<^verbatim>\<open>t\<close>. The tensor has two
  columns: \<open>col0\<close> is the entry of \<^verbatim>\<open>y[:, 0:1]\<close> and \<open>col1\<close> the entry of
  \<^verbatim>\<open>y[:, 1:2]\<close>, both finite. The tensor is a node of the framework's differentiable
  graph, so the framework can also produce the derivative of each column with respect
  to the network input: \<open>d_col0\<close> and \<open>d_col1\<close> are these derivatives at the row, the
  values that automatic differentiation of \<^verbatim>\<open>y\<close> with respect to \<^verbatim>\<open>t\<close> yields.
\<close>

record y_row =
  col0 :: real
  col1 :: real
  d_col0 :: real
  d_col1 :: real

text \<open>
  \<^verbatim>\<open>
  def ode_system(t, y):
      x, v = y[:, 0:1], y[:, 1:2]  # Splitting the output y into x and v
      dx_dt = v  # Velocity is the derivative of displacement
      dv_dt = (-c * v - k * x + F(t)) / m  # Derived from Newton's second law
      return [dx_dt, dv_dt]
  \<close>
  The names \<^verbatim>\<open>c\<close>, \<^verbatim>\<open>k\<close>, \<^verbatim>\<open>F\<close> and \<^verbatim>\<open>m\<close> are globals; Python reads them in this
  order while it evaluates the third line. The negation of \<^verbatim>\<open>c\<close> is exact; each of
  the five operations that follow rounds its result.
\<close>

definition ode_system :: "rounding \<Rightarrow> globals \<Rightarrow> real \<Rightarrow> y_row \<Rightarrow> error + entry list" where
  "ode_system rnd g t y =
    (let x = col0 y; v = col1 y;
         dx_dt = Fin v
     in and_then (and_then (load_name g ''c'') as_number) (\<lambda>c.
        and_then (and_then (load_name g ''k'') as_number) (\<lambda>k.
        and_then (and_then (load_name g ''F'') (\<lambda>F. call_fn F t)) (\<lambda>F_t.
        and_then (and_then (load_name g ''m'') as_number) (\<lambda>m.
        (let dv_dt =
               tensor_div rnd
                 (tensor_op rnd (+)
                    (tensor_op rnd (-)
                       (tensor_op rnd (*) (Fin (- c)) (Fin v))
                       (tensor_op rnd (*) (Fin k) (Fin x)))
                    (Fin F_t))
                 m
         in Inr [dx_dt, dv_dt]))))))"

subsection \<open>The residual as the specification words it\<close>

text \<open>
  The specification describes the residual function as returning
  \<open>r1 = dx/dt - v\<close> and \<open>r2 = m * dv/dt + c * v + k * x - F(t)\<close>, with the derivatives
  obtained by automatic differentiation. This definition follows those words; it is
  compared with \<open>ode_system\<close> below.
\<close>

definition residual_spec ::
    "real \<Rightarrow> real \<Rightarrow> real \<Rightarrow> (real \<Rightarrow> real) \<Rightarrow> real \<Rightarrow> y_row \<Rightarrow> real list" where
  "residual_spec m c k F t y =
    [d_col0 y - col1 y, m * d_col1 y + c * col1 y + k * col0 y - F t]"

text \<open>
  The governing equation \<open>m x'' + c x' + k x = F(t)\<close> for the outputs \<open>(x, v)\<close> at one
  sampled time, in the first-order form the two outputs stand for: \<open>x' = v\<close> and
  \<open>m v' + c v + k x = F(t)\<close>.
\<close>

definition governing_equation ::
    "real \<Rightarrow> real \<Rightarrow> real \<Rightarrow> (real \<Rightarrow> real) \<Rightarrow> real \<Rightarrow> y_row \<Rightarrow> bool" where
  "governing_equation m c k F t y \<longleftrightarrow>
    d_col0 y = col1 y \<and> m * d_col1 y + c * col1 y + k * col0 y = F t"

text \<open>
  A scenario: the constants \<open>m = 1\<close>, \<open>c = 0.5\<close>, \<open>k = 1\<close>, \<open>F(t) = 0\<close> as a global
  namespace, and the row at \<open>t = 0\<close> of the solution that starts with \<open>x = 0\<close>,
  \<open>v = 1\<close>: there \<open>x' = 1\<close> and \<open>v' = -0.5\<close>. Every number of the scenario is a small
  dyadic fraction, so every binary floating-point format holds it exactly.
\<close>

definition scenario_globals :: globals where
  "scenario_globals =
    [''m'' \<mapsto> Num 1, ''c'' \<mapsto> Num (1 / 2), ''k'' \<mapsto> Num 1, ''F'' \<mapsto> Fn (\<lambda>t. 0)]"

definition scenario_row :: y_row where
  "scenario_row = \<lparr>col0 = 0, col1 = 1, d_col0 = 1, d_col1 = - (1 / 2)\<rparr>"

text \<open>
  A row belongs to a pair of functions \<open>x\<close>, \<open>v\<close> of time at \<open>t\<close> when its entries are
  their values and its derivative fields are their derivatives there.
\<close>

definition row_of :: "(real \<Rightarrow> real) \<Rightarrow> (real \<Rightarrow> real) \<Rightarrow> real \<Rightarrow> y_row \<Rightarrow> bool" where
  "row_of x v t y \<longleftrightarrow>
     col0 y = x t \<and> col1 y = v t \<and>
     (x has_real_derivative d_col0 y) (at t) \<and> (v has_real_derivative d_col1 y) (at t)"

text \<open>The rounding that changes nothing: exact arithmetic.\<close>

definition exact :: rounding where
  "exact = Fin"

section \<open>The cells of the notebook\<close>

subsection \<open>Statements and their execution\<close>

text \<open>
  The code cells hold three shapes of statement: a function definition, an assignment
  and an expression statement. An assignment is kept with its targets, the source text
  to the right of its \<^verbatim>\<open>=\<close> sign, and the global names that evaluating this text
  reads, in the order Python reads them (names inside a \<^verbatim>\<open>lambda\<close> body are read only
  when the lambda is called, keyword names and attribute names are not global names).
\<close>

datatype stmt =
    FunctionDef string
  | Assign "string list" string "string list"
  | ExprStmt string "string list"

type_synonym cell = "stmt list"

definition blank :: "string \<Rightarrow> bool" where
  "blank s = list_all (\<lambda>ch. ch = CHR '' '') s"

text \<open>An assignment with nothing to the right of \<^verbatim>\<open>=\<close> is not Python.\<close>

fun compiles :: "stmt \<Rightarrow> bool" where
  "compiles (FunctionDef n) = True"
| "compiles (Assign targets rhs loads) = (\<not> blank rhs)"
| "compiles (ExprStmt src loads) = True"

fun first_unbound :: "globals \<Rightarrow> string list \<Rightarrow> string option" where
  "first_unbound g [] = None"
| "first_unbound g (n # ns) = (if g n = None then Some n else first_unbound g ns)"

fun bind_all :: "globals \<Rightarrow> string list \<Rightarrow> globals" where
  "bind_all g [] = g"
| "bind_all g (n # ns) = bind_all (g(n \<mapsto> Obj)) ns"

text \<open>
  A function definition binds its name without running the body. An assignment
  evaluates its right-hand side, which raises \<^verbatim>\<open>NameError\<close> at the first name that is
  not bound, and then binds its targets.
\<close>

fun exec_stmt :: "globals \<Rightarrow> stmt \<Rightarrow> error + globals" where
  "exec_stmt g (FunctionDef n) = Inr (g(n \<mapsto> Obj))"
| "exec_stmt g (Assign targets rhs loads) =
     (case first_unbound g loads of
        Some n \<Rightarrow> Inl (NameError n)
      | None \<Rightarrow> Inr (bind_all g targets))"
| "exec_stmt g (ExprStmt src loads) =
     (case first_unbound g loads of
        Some n \<Rightarrow> Inl (NameError n)
      | None \<Rightarrow> Inr g)"

text \<open>
  Statements run in order; the first exception ends the cell, and the bindings made
  before it stay.
\<close>

fun exec_stmts :: "globals \<Rightarrow> stmt list \<Rightarrow> globals \<times> error option" where
  "exec_stmts g [] = (g, None)"
| "exec_stmts g (s # ss) =
     (case exec_stmt g s of
        Inl e \<Rightarrow> (g, Some e)
      | Inr g' \<Rightarrow> exec_stmts g' ss)"

text \<open>
  A cell is compiled as a whole before any of it runs: one malformed statement and
  nothing of the cell is executed.
\<close>

definition run_cell :: "globals \<Rightarrow> cell \<Rightarrow> globals \<times> error option" where
  "run_cell g cl =
     (if list_all compiles cl then exec_stmts g cl else (g, Some SyntaxError))"

text \<open>
  Running the cells one after the other, going on after a cell that failed: the final
  namespace and the outcome of every cell.
\<close>

fun run_cells :: "globals \<Rightarrow> cell list \<Rightarrow> globals \<times> error option list" where
  "run_cells g [] = (g, [])"
| "run_cells g (cl # cls) =
     (case run_cell g cl of
        (g', r) \<Rightarrow> (case run_cells g' cls of (g'', rs) \<Rightarrow> (g'', r # rs)))"

text \<open>The names a statement binds.\<close>

fun bound_names :: "stmt \<Rightarrow> string list" where
  "bound_names (FunctionDef n) = [n]"
| "bound_names (Assign targets rhs loads) = targets"
| "bound_names (ExprStmt src loads) = []"

subsection \<open>The code cells, in the notebook's order\<close>

definition empty_cell :: cell where
  "empty_cell = []"

definition ode_system_cell :: cell where
  "ode_system_cell = [FunctionDef ''ode_system'']"

text \<open>
  \<^verbatim>\<open>
  T = 
  geom = dde.geometry.TimeDomain(0, T)
  \<close>
\<close>

definition geometry_cell :: cell where
  "geometry_cell =
    [Assign [''T''] '' '' [],
     Assign [''geom''] '' dde.geometry.TimeDomain(0, T)'' [''dde'', ''T'']]"

definition ic_cell :: cell where
  "ic_cell =
    [Assign [''ic1'']
       '' dde.icbc.IC(geom, lambda t: 0, lambda _, on_initial: on_initial, component=0)''
       [''dde'', ''geom''],
     Assign [''ic2'']
       '' dde.icbc.IC(geom, lambda t: 1, lambda _, on_initial: on_initial, component=1)''
       [''dde'', ''geom'']]"

definition data_cell :: cell where
  "data_cell =
    [Assign [''data'']
       '' dde.data.PDE(geom, ode_system, [ic1, ic2], num_domain=1000, num_boundary=2)''
       [''dde'', ''geom'', ''ode_system'', ''ic1'', ''ic2'']]"

definition net_cell :: cell where
  "net_cell =
    [Assign [''net'']
       '' dde.nn.FNN([1] + [50] * 3 + [2], \"tanh\", \"Glorot uniform\")''
       [''dde'']]"

definition train_cell :: cell where
  "train_cell =
    [Assign [''model''] '' dde.Model(data, net)'' [''dde'', ''data'', ''net''],
     ExprStmt ''model.compile(\"adam\", lr=0.001, metrics=[\"l2 relative error\"])''
       [''model''],
     Assign [''losshistory'', ''train_state''] '' model.train(epochs=10000)'' [''model'']]"

definition plot_cell :: cell where
  "plot_cell =
    [ExprStmt ''dde.saveplot(losshistory, train_state, issave=True, isplot=True)''
       [''dde'', ''losshistory'', ''train_state'']]"

definition notebook :: "cell list" where
  "notebook =
    [empty_cell, ode_system_cell, geometry_cell, ic_cell, data_cell, net_cell,
     train_cell, plot_cell]"

text \<open>
  A fresh kernel: none of the names the notebook reads is a builtin, so the namespace
  the cells see starts empty.
\<close>

definition fresh_kernel :: globals where
  "fresh_kernel = Map.empty"

definition notebook_globals :: globals where
  "notebook_globals = fst (run_cells fresh_kernel notebook)"

section \<open>The problem the cells declare\<close>

text \<open>
  The right-hand sides of the cells are constructor calls of the framework. Each
  constructor is modelled as a record of the arguments it is given. The time horizon
  \<^verbatim>\<open>T\<close> has no value in the notebook and is a parameter here.
\<close>

datatype geometry = TimeDomain real real

definition geom :: "real \<Rightarrow> geometry" where
  "geom T = TimeDomain 0 T"

text \<open>
  \<^verbatim>\<open>
  ic1 = dde.icbc.IC(geom, lambda t: 0, lambda _, on_initial: on_initial, component=0)
  ic2 = dde.icbc.IC(geom, lambda t: 1, lambda _, on_initial: on_initial, component=1)
  \<close>
\<close>

record ic =
  ic_geom :: geometry
  ic_func :: "real \<Rightarrow> real"
  ic_on_initial :: "real \<Rightarrow> bool \<Rightarrow> bool"
  ic_component :: nat

definition ic1 :: "real \<Rightarrow> ic" where
  "ic1 T =
    \<lparr>ic_geom = geom T, ic_func = (\<lambda>t. 0),
     ic_on_initial = (\<lambda>_ on_initial. on_initial), ic_component = 0\<rparr>"

definition ic2 :: "real \<Rightarrow> ic" where
  "ic2 T =
    \<lparr>ic_geom = geom T, ic_func = (\<lambda>t. 1),
     ic_on_initial = (\<lambda>_ on_initial. on_initial), ic_component = 1\<rparr>"

text \<open>
  The framework hands every candidate point to the constraint's predicate together
  with its own verdict on whether the point is an initial point, and keeps the points
  for which the predicate answers true. The framework's verdict is the parameter
  \<open>marked\<close>.
\<close>

definition ic_points :: "(real \<Rightarrow> bool) \<Rightarrow> ic \<Rightarrow> real list \<Rightarrow> real list" where
  "ic_points marked bc X = filter (\<lambda>p. ic_on_initial bc p (marked p)) X"

text \<open>
  \<^verbatim>\<open>
  data = dde.data.PDE(geom, ode_system, [ic1, ic2], num_domain=1000, num_boundary=2)
  \<close>
\<close>

record pde_data =
  pde_geom :: geometry
  pde :: "rounding \<Rightarrow> globals \<Rightarrow> real \<Rightarrow> y_row \<Rightarrow> error + entry list"
  bcs :: "ic list"
  num_domain :: nat
  num_boundary :: nat

definition data :: "real \<Rightarrow> pde_data" where
  "data T =
    \<lparr>pde_geom = geom T, pde = ode_system, bcs = [ic1 T, ic2 T],
     num_domain = 1000, num_boundary = 2\<rparr>"

text \<open>
  \<^verbatim>\<open>
  net = dde.nn.FNN([1] + [50] * 3 + [2], "tanh", "Glorot uniform")
  \<close>
  Python's \<^verbatim>\<open>xs * n\<close> on a list repeats it \<open>n\<close> times (no times for \<open>n \<le> 0\<close>), and
  \<^verbatim>\<open>+\<close> on lists appends.
\<close>

definition list_times :: "'a list \<Rightarrow> int \<Rightarrow> 'a list" where
  "list_times xs n = concat (replicate (nat n) xs)"

record fnn =
  layer_sizes :: "nat list"
  activation :: string
  kernel_initializer :: string

definition net :: fnn where
  "net =
    \<lparr>layer_sizes = ([1] @ list_times [50] 3) @ [2],
     activation = ''tanh'', kernel_initializer = ''Glorot uniform''\<rparr>"

text \<open>The hidden layers of a network are all its layers but the first and the last.\<close>

definition hidden_layers :: "fnn \<Rightarrow> nat list" where
  "hidden_layers n = butlast (tl (layer_sizes n))"

section \<open>What \<^verbatim>\<open>ode_system\<close> returns\<close>

text \<open>
  Whenever the function returns, it returns two entries, and the first is the entry
  \<open>v\<close> of the row itself: no arithmetic touches it.
\<close>

lemma ode_system_first_entry:
  assumes "ode_system rnd g t y = Inr r"
  shows "\<exists>e. r = [Fin (col1 y), e]"
  using assms
  by (auto simp add: ode_system_def Let_def and_then_def split: sum.splits)

text \<open>
  The value does not depend on the derivative fields of the row, for any rounding, any
  namespace and any input, error results included.
\<close>

lemma ode_system_ignores_derivatives:
  "ode_system rnd g t (y\<lparr>d_col0 := a, d_col1 := b\<rparr>) = ode_system rnd g t y"
  by (simp add: ode_system_def)

lemma scenario_lookups:
  "scenario_globals ''c'' = Some (Num (1 / 2))"
  "scenario_globals ''k'' = Some (Num 1)"
  "scenario_globals ''F'' = Some (Fn (\<lambda>t. 0))"
  "scenario_globals ''m'' = Some (Num 1)"
  by (simp_all add: scenario_globals_def)

text \<open>
  On the scenario the first entry is 1 whatever the rounding; with a rounding that
  keeps \<open>0\<close> and \<open>-0.5\<close>, as every binary format does, the value is \<open>[1, -0.5]\<close>.
\<close>

lemma scenario_first_entry:
  "\<exists>e. ode_system rnd scenario_globals 0 scenario_row = Inr [Fin 1, e]"
  by (simp add: ode_system_def Let_def and_then_def load_name_def scenario_lookups
      scenario_row_def)

lemma scenario_value:
  assumes "rnd 0 = Fin 0" and "rnd (- (1 / 2)) = Fin (- (1 / 2))"
  shows "ode_system rnd scenario_globals 0 scenario_row = Inr [Fin 1, Fin (- (1 / 2))]"
  using assms
  by (simp add: ode_system_def Let_def and_then_def load_name_def scenario_lookups
      scenario_row_def)

lemma scenario_value_exact:
  "ode_system exact scenario_globals 0 scenario_row = Inr [Fin 1, Fin (- (1 / 2))]"
  by (rule scenario_value) (simp_all add: exact_def)

lemma scenario_residual:
  "residual_spec 1 (1 / 2) 1 (\<lambda>t. 0) 0 scenario_row = [0, 0]"
  by (simp add: residual_spec_def scenario_row_def)

lemma scenario_governing:
  "governing_equation 1 (1 / 2) 1 (\<lambda>t. 0) 0 scenario_row"
  by (simp add: governing_equation_def scenario_row_def)

text \<open>
  The row of the scenario is the row at \<open>t = 0\<close> of a pair of functions: the outputs
  \<open>x(s) = s - s\<^sup>2 / 4\<close> and \<open>v(s) = 1 - s / 2\<close> have these values and derivatives
  there.
\<close>

lemma scenario_row_realised:
  "row_of (\<lambda>s. s - s\<^sup>2 / 4) (\<lambda>s. 1 - s / 2) 0 scenario_row"
  unfolding row_of_def scenario_row_def
  by (auto intro!: derivative_eq_intros)

text \<open>
  The notebook hands \<open>ode_system\<close> to the data object as the quantity that training
  drives to zero, and declares \<open>v(0) = 1\<close> as the second initial condition. The two do
  not fit: wherever the value of \<open>ode_system\<close> at \<open>t = 0\<close> is zero in its first entry,
  \<open>v\<close> differs from the target of \<open>ic2\<close>.
\<close>

lemma pde_zero_contradicts_ic2:
  assumes "pde (data T) rnd g 0 y = Inr [Fin 0, e]"
  shows "col1 y \<noteq> ic_func (ic2 T) 0"
proof -
  from assms have "ode_system rnd g 0 y = Inr [Fin 0, e]"
    by (simp add: data_def)
  then have "\<exists>e'. [Fin 0, e] = [Fin (col1 y), e']"
    by (rule ode_system_first_entry)
  then have "col1 y = 0" by simp
  then show ?thesis by (simp add: ic2_def)
qed

text \<open>
  Claim C1 says that \<open>ode_system\<close> returns the residuals \<open>r1 = dx/dt - v\<close> and
  \<open>r2 = m * dv/dt + c * v + k * x - F(t)\<close>. The code returns other quantities: on
  the row of the scenario the residuals are \<open>[0, 0]\<close>, and for every rounding of the
  tensor arithmetic the function returns a value whose first entry is 1; under exact
  arithmetic the value is \<open>[1, -0.5]\<close>.
\<close>

theorem ode_system_not_residual:
  "ode_system rnd scenario_globals 0 scenario_row
     \<noteq> Inr (map Fin (residual_spec 1 (1 / 2) 1 (\<lambda>t. 0) 0 scenario_row))
   \<and> residual_spec 1 (1 / 2) 1 (\<lambda>t. 0) 0 scenario_row = [0, 0]
   \<and> ode_system exact scenario_globals 0 scenario_row = Inr [Fin 1, Fin (- (1 / 2))]"
proof -
  obtain e where "ode_system rnd scenario_globals 0 scenario_row = Inr [Fin 1, e]"
    using scenario_first_entry by blast
  then show ?thesis
    by (simp add: scenario_residual scenario_value_exact)
qed

text \<open>
  Claim C2 says that the returned value is zero exactly when the network outputs
  satisfy the governing equation at that time. The code breaks it: the row of the
  scenario satisfies the governing equation, and for every rounding of the tensor
  arithmetic the returned value is not zero.
\<close>

theorem ode_system_nonzero_on_solution:
  "governing_equation 1 (1 / 2) 1 (\<lambda>t. 0) 0 scenario_row
   \<and> ode_system rnd scenario_globals 0 scenario_row \<noteq> Inr [Fin 0, Fin 0]
   \<and> \<not> (ode_system rnd scenario_globals 0 scenario_row = Inr [Fin 0, Fin 0]
          \<longleftrightarrow> governing_equation 1 (1 / 2) 1 (\<lambda>t. 0) 0 scenario_row)"
proof -
  obtain e where "ode_system rnd scenario_globals 0 scenario_row = Inr [Fin 1, e]"
    using scenario_first_entry by blast
  then show ?thesis
    by (simp add: scenario_governing)
qed

text \<open>
  Claim C3 says that the returned expressions depend on derivatives of \<open>y\<close> with
  respect to \<open>t\<close>. The code uses none: two rows with the entries of the scenario and
  different derivatives get the same value from \<open>ode_system\<close>, for every rounding of
  the tensor arithmetic, while the residuals of the specification differ on them.
\<close>

theorem ode_system_same_for_other_derivatives:
  "ode_system rnd scenario_globals 0 (scenario_row\<lparr>d_col0 := 7, d_col1 := 9\<rparr>)
     = ode_system rnd scenario_globals 0 scenario_row
   \<and> residual_spec 1 (1 / 2) 1 (\<lambda>t. 0) 0 (scenario_row\<lparr>d_col0 := 7, d_col1 := 9\<rparr>)
     \<noteq> residual_spec 1 (1 / 2) 1 (\<lambda>t. 0) 0 scenario_row"
proof
  show "ode_system rnd scenario_globals 0 (scenario_row\<lparr>d_col0 := 7, d_col1 := 9\<rparr>)
     = ode_system rnd scenario_globals 0 scenario_row"
    by (rule ode_system_ignores_derivatives)
next
  show "residual_spec 1 (1 / 2) 1 (\<lambda>t. 0) 0 (scenario_row\<lparr>d_col0 := 7, d_col1 := 9\<rparr>)
     \<noteq> residual_spec 1 (1 / 2) 1 (\<lambda>t. 0) 0 scenario_row"
    by (simp add: residual_spec_def scenario_row_def)
qed

section \<open>Running the notebook\<close>

lemma notebook_outcomes:
  "snd (run_cells fresh_kernel notebook) =
    [None, None, Some SyntaxError, Some (NameError ''dde''), Some (NameError ''dde''),
     Some (NameError ''dde''), Some (NameError ''dde''), Some (NameError ''dde'')]"
  by (simp add: notebook_def fresh_kernel_def run_cell_def empty_cell_def
      ode_system_cell_def geometry_cell_def ic_cell_def data_cell_def net_cell_def
      train_cell_def plot_cell_def blank_def)

lemma notebook_globals_value: "notebook_globals = [''ode_system'' \<mapsto> Obj]"
  by (simp add: notebook_globals_def notebook_def fresh_kernel_def run_cell_def
      empty_cell_def ode_system_cell_def geometry_cell_def ic_cell_def data_cell_def
      net_cell_def train_cell_def plot_cell_def blank_def)

text \<open>No statement of the notebook has \<^verbatim>\<open>c\<close>, \<^verbatim>\<open>k\<close>, \<^verbatim>\<open>F\<close> or \<^verbatim>\<open>m\<close> as a target.\<close>

lemma notebook_never_binds_constants:
  "''c'' \<notin> set (concat (map bound_names (concat notebook)))"
  "''k'' \<notin> set (concat (map bound_names (concat notebook)))"
  "''F'' \<notin> set (concat (map bound_names (concat notebook)))"
  "''m'' \<notin> set (concat (map bound_names (concat notebook)))"
  by (simp_all add: notebook_def empty_cell_def ode_system_cell_def geometry_cell_def
      ic_cell_def data_cell_def net_cell_def train_cell_def plot_cell_def)

text \<open>
  Running statements changes the namespace only at the names they bind, whatever the
  namespace the kernel starts with.
\<close>

lemma bind_all_other: "n \<notin> set ns \<Longrightarrow> bind_all g ns n = g n"
  by (induction ns arbitrary: g) auto

lemma exec_stmt_other:
  "exec_stmt g s = Inr g' \<Longrightarrow> n \<notin> set (bound_names s) \<Longrightarrow> g' n = g n"
  by (cases s) (auto simp add: bind_all_other split: option.splits)

lemma exec_stmts_other:
  "n \<notin> set (concat (map bound_names ss)) \<Longrightarrow> fst (exec_stmts g ss) n = g n"
proof (induction ss arbitrary: g)
  case Nil
  then show ?case by simp
next
  case (Cons s ss)
  show ?case
  proof (cases "exec_stmt g s")
    case (Inl e)
    then show ?thesis by simp
  next
    case (Inr g')
    with Cons.prems have "g' n = g n"
      by (auto dest: exec_stmt_other)
    moreover from Cons.prems have "fst (exec_stmts g' ss) n = g' n"
      by (intro Cons.IH) simp
    ultimately show ?thesis using Inr by simp
  qed
qed

lemma run_cell_other:
  "n \<notin> set (concat (map bound_names cl)) \<Longrightarrow> fst (run_cell g cl) n = g n"
  by (simp add: run_cell_def exec_stmts_other)

lemma run_cells_other:
  "n \<notin> set (concat (map bound_names (concat cls))) \<Longrightarrow> fst (run_cells g cls) n = g n"
proof (induction cls arbitrary: g)
  case Nil
  then show ?case by simp
next
  case (Cons cl cls)
  obtain g' r where step: "run_cell g cl = (g', r)"
    by (cases "run_cell g cl")
  obtain g'' rs where rest: "run_cells g' cls = (g'', rs)"
    by (cases "run_cells g' cls")
  from Cons.prems have "fst (run_cell g cl) n = g n"
    by (intro run_cell_other) simp
  with step have "g' n = g n" by simp
  moreover from Cons.prems have "fst (run_cells g' cls) n = g' n"
    by (intro Cons.IH) simp
  ultimately show ?case using step rest by simp
qed

lemma ode_system_unbound_c:
  "g ''c'' = None \<Longrightarrow> ode_system rnd g t y = Inl (NameError ''c'')"
  by (simp add: ode_system_def Let_def and_then_def load_name_def)

text \<open>
  So the call fails in the same way from any starting namespace that does not bind
  \<^verbatim>\<open>c\<close> already.
\<close>

lemma ode_system_unbound_after_notebook:
  "g ''c'' = None \<Longrightarrow>
    ode_system rnd (fst (run_cells g notebook)) t y = Inl (NameError ''c'')"
proof -
  assume unbound: "g ''c'' = None"
  have "fst (run_cells g notebook) ''c'' = g ''c''"
    by (rule run_cells_other) (rule notebook_never_binds_constants)
  with unbound show ?thesis
    by (simp add: ode_system_unbound_c)
qed

text \<open>
  Claim C4 says that every name \<open>ode_system\<close> reads is defined in the notebook, so
  that evaluating it raises no undefined-name error. In the namespace the notebook's
  cells build, the call raises \<^verbatim>\<open>NameError\<close> for \<^verbatim>\<open>c\<close> on every input, and none of
  \<^verbatim>\<open>c\<close>, \<^verbatim>\<open>k\<close>, \<^verbatim>\<open>F\<close>, \<^verbatim>\<open>m\<close> is bound.
\<close>

theorem ode_system_name_error:
  "ode_system rnd notebook_globals t y = Inl (NameError ''c'')
   \<and> notebook_globals ''c'' = None \<and> notebook_globals ''k'' = None
   \<and> notebook_globals ''F'' = None \<and> notebook_globals ''m'' = None"
  by (simp add: notebook_globals_value ode_system_def Let_def and_then_def load_name_def)

text \<open>
  Claim C5: the assignment to \<^verbatim>\<open>T\<close> has nothing to the right of its \<^verbatim>\<open>=\<close> sign, so
  the geometry cell does not compile: in every namespace it ends in \<^verbatim>\<open>SyntaxError\<close>
  and binds nothing. After the notebook has run, \<^verbatim>\<open>T\<close> and \<^verbatim>\<open>geom\<close> are unbound,
  and every cell from the geometry cell on has failed.
\<close>

theorem geometry_cell_not_evaluable:
  "\<not> compiles (hd geometry_cell)
   \<and> run_cell g geometry_cell = (g, Some SyntaxError)
   \<and> notebook_globals ''T'' = None \<and> notebook_globals ''geom'' = None
   \<and> drop 2 (snd (run_cells fresh_kernel notebook)) =
       [Some SyntaxError, Some (NameError ''dde''), Some (NameError ''dde''),
        Some (NameError ''dde''), Some (NameError ''dde''), Some (NameError ''dde'')]"
  by (simp add: notebook_outcomes notebook_globals_value run_cell_def geometry_cell_def
      blank_def)

section \<open>The declared problem\<close>

text \<open>
  Claim C6: the target function of \<open>ic1\<close> returns 0 for every input and belongs to
  component 0; the target function of \<open>ic2\<close> returns 1 for every input and belongs
  to component 1.
\<close>

theorem initial_condition_targets:
  "ic_func (ic1 T) t = 0 \<and> ic_component (ic1 T) = 0
   \<and> ic_func (ic2 T) t = 1 \<and> ic_component (ic2 T) = 1"
  by (simp add: ic1_def ic2_def)

text \<open>
  Claim C7: the layer sizes of the network are \<open>[1, 50, 50, 50, 2]\<close>: input
  dimension 1, three hidden layers of width 50, output dimension 2; the activation is
  tanh and the initializer is Glorot uniform.
\<close>

theorem net_architecture:
  "layer_sizes net = [1, 50, 50, 50, 2]
   \<and> hd (layer_sizes net) = 1
   \<and> hidden_layers net = replicate 3 50
   \<and> last (layer_sizes net) = 2
   \<and> activation net = ''tanh''
   \<and> kernel_initializer net = ''Glorot uniform''"
  by (simp add: net_def list_times_def hidden_layers_def eval_nat_numeral)

text \<open>
  Claim C8: the data object is configured with 1000 domain points and 2 boundary
  points.
\<close>

theorem data_point_counts:
  "num_domain (data T) = 1000 \<and> num_boundary (data T) = 2"
  by (simp add: data_def)

text \<open>
  Claim C10: both initial conditions carry the same boundary predicate, which returns
  its \<^verbatim>\<open>on_initial\<close> flag unchanged; so both select the same points, and a point is
  selected exactly when the framework marks it as an initial point.
\<close>

theorem ic_same_predicate:
  "ic_on_initial (ic1 T) = ic_on_initial (ic2 T)
   \<and> ic_on_initial (ic1 T) p on_initial = on_initial
   \<and> ic_on_initial (ic2 T) p on_initial = on_initial
   \<and> ic_points marked (ic1 T) X = ic_points marked (ic2 T) X
   \<and> ic_points marked (ic1 T) X = filter marked X
   \<and> ic_geom (ic1 T) = ic_geom (ic2 T)"
  by (simp add: ic1_def ic2_def ic_points_def)

end
